theory Spec2Isabelle
  imports Complex_Main "HOL-Library.Sublist"
begin

section \<open>Strings\<close>

text \<open>
  JavaScript strings are modelled as \<^typ>\<open>string\<close>, one \<^typ>\<open>char\<close> per character; the model
  covers ASCII text. The case mappings and the white-space class below are those of
  JavaScript restricted to ASCII: a character outside the tables is left as it is.
\<close>

text \<open>\<^verbatim>\<open>s.includes(sub)\<close>: \<open>sub\<close> occurs in \<open>s\<close> as a contiguous run.\<close>

fun str_includes :: "string \<Rightarrow> string \<Rightarrow> bool" where
  "str_includes [] sub = (sub = [])"
| "str_includes (c # cs) sub = (prefix sub (c # cs) \<or> str_includes cs sub)"

text \<open>The character class \<^verbatim>\<open>[A-Z]\<close>.\<close>

definition isUpperAZ :: "char \<Rightarrow> bool" where
  "isUpperAZ c = (c \<in> set ''ABCDEFGHIJKLMNOPQRSTUVWXYZ'')"

definition charToUpperCase :: "char \<Rightarrow> char" where
  "charToUpperCase c =
     (case map_of (zip ''abcdefghijklmnopqrstuvwxyz'' ''ABCDEFGHIJKLMNOPQRSTUVWXYZ'') c of
        Some u \<Rightarrow> u | None \<Rightarrow> c)"

definition charToLowerCase :: "char \<Rightarrow> char" where
  "charToLowerCase c =
     (case map_of (zip ''ABCDEFGHIJKLMNOPQRSTUVWXYZ'' ''abcdefghijklmnopqrstuvwxyz'') c of
        Some l \<Rightarrow> l | None \<Rightarrow> c)"

definition toLowerCase :: "string \<Rightarrow> string" where
  "toLowerCase s = map charToLowerCase s"

text \<open>
  The class \<^verbatim>\<open>\s\<close> and the characters \<^verbatim>\<open>trim\<close> strips: tab, line feed, vertical tab,
  form feed, carriage return, space. The line terminators are the characters that
  \<^verbatim>\<open>.\<close> does not match.
\<close>

definition isWhiteSpace :: "char \<Rightarrow> bool" where
  "isWhiteSpace c = (c \<in> set [CHR 0x09, CHR 0x0A, CHR 0x0B, CHR 0x0C, CHR 0x0D, CHR '' ''])"

definition isLineTerminator :: "char \<Rightarrow> bool" where
  "isLineTerminator c = (c \<in> set [CHR 0x0A, CHR 0x0D])"

definition trim :: "string \<Rightarrow> string" where
  "trim s = rev (dropWhile isWhiteSpace (rev (dropWhile isWhiteSpace s)))"

section \<open>RevisionPanel: the revision classifier\<close>

subsection \<open>Data\<close>

text \<open>
  Modelled from the spec: the type \<^verbatim>\<open>Revision\<close> and the guards \<^verbatim>\<open>isInsertion\<close>,
  \<^verbatim>\<open>isDeletion\<close>, \<^verbatim>\<open>isMove\<close>, \<^verbatim>\<open>isFormatChange\<close> are imported from the package
  \<^verbatim>\<open>docxodus\<close>; the spec gives a revision record a kind (insertion, deletion, move or
  format change), and each guard tests it. \<^verbatim>\<open>getRevisionTypeLabel\<close> falls back to
  \<^verbatim>\<open>String(revision.revisionType)\<close>, so a kind outside the four is possible.
  A property map is given by its \<^verbatim>\<open>Object.entries\<close>, in iteration order.
\<close>

datatype RevisionType = Inserted | Deleted | Moved | FormatChanged | OtherType string

record FormatChangeInfo =
  oldProperties :: "(string \<times> string) list option"
  newProperties :: "(string \<times> string) list option"

record Revision =
  author :: string
  date :: string
  revisionType :: RevisionType
  rev_text :: string
  moveGroupId :: "int option"
  isMoveSource :: "bool option"
  formatChange :: "FormatChangeInfo option"

definition isInsertion :: "Revision \<Rightarrow> bool" where
  "isInsertion revision = (revisionType revision = Inserted)"

definition isDeletion :: "Revision \<Rightarrow> bool" where
  "isDeletion revision = (revisionType revision = Deleted)"

definition isMove :: "Revision \<Rightarrow> bool" where
  "isMove revision = (revisionType revision = Moved)"

definition isFormatChange :: "Revision \<Rightarrow> bool" where
  "isFormatChange revision = (revisionType revision = FormatChanged)"

subsection \<open>Statistics\<close>

record Stats =
  total :: nat
  insertions :: nat
  deletions :: nat
  moves :: nat
  formatting :: nat

definition stats :: "Revision list \<Rightarrow> Stats" where
  "stats revisions =
     \<lparr> total = length revisions,
       insertions = length (filter isInsertion revisions),
       deletions = length (filter isDeletion revisions),
       moves = length (filter isMove revisions),
       formatting = length (filter isFormatChange revisions) \<rparr>"

subsection \<open>Format changes\<close>

definition isValidPropertyValue :: "string \<Rightarrow> bool" where
  "isValidPropertyValue v =
     (if v = [] then False
      else if str_includes v ''<'' \<or> str_includes v ''xmlns'' \<or> str_includes v ''Unid='' then False
      else if length v > 100 then False
      else True)"

text \<open>\<^verbatim>\<open>.replace(/([A-Z])/g, ' $1')\<close>: a space in front of every capital letter.\<close>

fun spaceBeforeCapitals :: "string \<Rightarrow> string" where
  "spaceBeforeCapitals [] = []"
| "spaceBeforeCapitals (c # cs) =
     (if isUpperAZ c then CHR '' '' # c # spaceBeforeCapitals cs
      else c # spaceBeforeCapitals cs)"

text \<open>\<^verbatim>\<open>.replace(/^./, (str) => str.toUpperCase())\<close>: the first character, unless it is a
  line terminator, in upper case.\<close>

fun capitalizeFirst :: "string \<Rightarrow> string" where
  "capitalizeFirst [] = []"
| "capitalizeFirst (c # cs) = (if isLineTerminator c then c # cs else charToUpperCase c # cs)"

definition formatPropertyName :: "string \<Rightarrow> string" where
  "formatPropertyName name = trim (capitalizeFirst (spaceBeforeCapitals name))"

definition formatPropertyValue :: "string \<Rightarrow> string" where
  "formatPropertyValue v =
     (if v = ''true'' then ''Yes''
      else if v = ''false'' then ''No''
      else if v = ''single'' then ''Single''
      else if v = ''double'' then ''Double''
      else v)"

record FormatChangeItem =
  property :: string
  oldValue :: "string option"
  newValue :: "string option"

text \<open>\<^verbatim>\<open>newProperties?.[key]\<close>\<close>

definition lookupProperty :: "(string \<times> string) list option \<Rightarrow> string \<Rightarrow> string option" where
  "lookupProperty props key = (case props of None \<Rightarrow> None | Some entries \<Rightarrow> map_of entries key)"

text \<open>\<^verbatim>\<open>newValue && isValidPropertyValue(newValue) ? formatPropertyValue(newValue) : undefined\<close>\<close>

definition pairedNewValue :: "string option \<Rightarrow> string option" where
  "pairedNewValue newVal =
     (case newVal of
        None \<Rightarrow> None
      | Some nv \<Rightarrow> if nv \<noteq> [] \<and> isValidPropertyValue nv then Some (formatPropertyValue nv) else None)"

text \<open>
  The first loop of \<^verbatim>\<open>getFormatChanges\<close>, over the entries of \<^verbatim>\<open>oldProperties\<close>; the
  state is the array \<^verbatim>\<open>changes\<close> and the set \<^verbatim>\<open>processedKeys\<close>.
\<close>

fun processOld ::
  "(string \<times> string) list \<Rightarrow> (string \<times> string) list option \<Rightarrow>
   FormatChangeItem list \<times> string set \<Rightarrow> FormatChangeItem list \<times> string set" where
  "processOld [] newProps (changes, processedKeys) = (changes, processedKeys)"
| "processOld ((key, val) # rest) newProps (changes, processedKeys) =
     (if \<not> isValidPropertyValue val then processOld rest newProps (changes, processedKeys)
      else processOld rest newProps
             (changes @ [\<lparr> property = formatPropertyName key,
                            oldValue = Some (formatPropertyValue val),
                            newValue = pairedNewValue (lookupProperty newProps key) \<rparr>],
              insert key processedKeys))"

text \<open>The second loop, over the entries of \<^verbatim>\<open>newProperties\<close>.\<close>

fun processNew ::
  "(string \<times> string) list \<Rightarrow> string set \<Rightarrow> FormatChangeItem list \<Rightarrow> FormatChangeItem list" where
  "processNew [] processedKeys changes = changes"
| "processNew ((key, val) # rest) processedKeys changes =
     (if key \<in> processedKeys then processNew rest processedKeys changes
      else if \<not> isValidPropertyValue val then processNew rest processedKeys changes
      else processNew rest processedKeys
             (changes @ [\<lparr> property = formatPropertyName key,
                            oldValue = None,
                            newValue = Some (formatPropertyValue val) \<rparr>]))"

definition getFormatChanges :: "Revision \<Rightarrow> FormatChangeItem list" where
  "getFormatChanges revision =
     (case formatChange revision of
        None \<Rightarrow> []
      | Some fc \<Rightarrow>
          (case (case oldProperties fc of
                   None \<Rightarrow> ([], {})
                 | Some old \<Rightarrow> processOld old (newProperties fc) ([], {})) of
             (changes, processedKeys) \<Rightarrow>
               (case newProperties fc of
                  None \<Rightarrow> changes
                | Some new \<Rightarrow> processNew new processedKeys changes)))"

text \<open>A format-change revision with the given property maps.\<close>

definition formatRevision ::
  "(string \<times> string) list option \<Rightarrow> (string \<times> string) list option \<Rightarrow> Revision" where
  "formatRevision old new =
     \<lparr> author = ''A'', date = ''2024-01-01T00:00:00Z'', revisionType = FormatChanged,
       rev_text = '''', moveGroupId = None, isMoveSource = None,
       formatChange = Some \<lparr> oldProperties = old, newProperties = new \<rparr> \<rparr>"

subsection \<open>Vocabulary for the properties of \<open>getFormatChanges\<close>\<close>

text \<open>The entries of the two property maps of a revision; none when the map or the
  format change is absent.\<close>

definition oldEntries :: "Revision \<Rightarrow> (string \<times> string) list" where
  "oldEntries revision =
     (case formatChange revision of
        None \<Rightarrow> []
      | Some fc \<Rightarrow> (case oldProperties fc of None \<Rightarrow> [] | Some entries \<Rightarrow> entries))"

definition newEntries :: "Revision \<Rightarrow> (string \<times> string) list" where
  "newEntries revision =
     (case formatChange revision of
        None \<Rightarrow> []
      | Some fc \<Rightarrow> (case newProperties fc of None \<Rightarrow> [] | Some entries \<Rightarrow> entries))"

text \<open>An entry passes when its value is a valid property value.\<close>

definition passes :: "string \<times> string \<Rightarrow> bool" where
  "passes kv = isValidPropertyValue (snd kv)"

text \<open>The entry for a key of \<open>oldProperties\<close>, paired with the value under the same key
  in \<open>newProperties\<close>, and the add-only entry for a key of \<open>newProperties\<close>.\<close>

definition pairedEntry :: "(string \<times> string) list \<Rightarrow> string \<times> string \<Rightarrow> FormatChangeItem" where
  "pairedEntry new kv =
     \<lparr> property = formatPropertyName (fst kv),
       oldValue = Some (formatPropertyValue (snd kv)),
       newValue = (case map_of new (fst kv) of
                     None \<Rightarrow> None
                   | Some nv \<Rightarrow> if isValidPropertyValue nv then Some (formatPropertyValue nv) else None) \<rparr>"

definition addOnlyEntry :: "string \<times> string \<Rightarrow> FormatChangeItem" where
  "addOnlyEntry kv =
     \<lparr> property = formatPropertyName (fst kv), oldValue = None,
       newValue = Some (formatPropertyValue (snd kv)) \<rparr>"

text \<open>The revision without the key \<open>k\<close> in either property map.\<close>

definition dropKey :: "string \<Rightarrow> Revision \<Rightarrow> Revision" where
  "dropKey k revision =
     revision \<lparr> formatChange :=
       map_option (\<lambda>fc. \<lparr> oldProperties = map_option (filter (\<lambda>kv. fst kv \<noteq> k)) (oldProperties fc),
                            newProperties = map_option (filter (\<lambda>kv. fst kv \<noteq> k)) (newProperties fc) \<rparr>)
         (formatChange revision) \<rparr>"

section \<open>DocumentViewer: the conversion orchestrator\<close>

subsection \<open>Data\<close>

text \<open>
  The hook \<^verbatim>\<open>useConversion\<close> and the enumerations \<^verbatim>\<open>CommentRenderMode\<close> and
  \<^verbatim>\<open>PaginationMode\<close> belong to the engine package. A handler of the component is a
  function from the component state to the new state and the list of calls it makes on
  the hook, in order. A number is a \<^typ>\<open>real\<close>; the scale is only stored and passed on.
\<close>

datatype CommentMode = Mode_disabled | Mode_endnote | Mode_inline | Mode_margin

datatype CommentRenderMode = Disabled | EndnoteStyle | Inline | Margin

datatype PaginationMode = PaginationMode_None | Paginated

record File =
  file_name :: string
  file_bytes :: "nat list"

record ConvertOptions =
  opt_commentRenderMode :: CommentRenderMode
  opt_pageTitle :: string
  opt_cssPrefix :: string
  opt_fabricateClasses :: bool
  opt_additionalCss :: "string option"
  opt_commentCssClassPrefix :: string
  opt_paginationMode :: PaginationMode
  opt_paginationScale :: "real option"

datatype HookCall = Convert File ConvertOptions | ClearCall

record ViewerState =
  fileName :: string
  commentMode :: CommentMode
  pendingFile :: "File option"
  enablePagination :: bool
  paginationScale :: real
  showPageNumbers :: bool
  pageTitle :: string
  cssPrefix :: string
  fabricateClasses :: bool
  additionalCss :: string
  commentCssClassPrefix :: string
  showAdvanced :: bool

definition initialState :: ViewerState where
  "initialState =
     \<lparr> fileName = '''', commentMode = Mode_disabled, pendingFile = None,
       enablePagination = False, paginationScale = 8 / 10, showPageNumbers = True,
       pageTitle = ''Document'', cssPrefix = ''docx-'', fabricateClasses = True,
       additionalCss = '''', commentCssClassPrefix = ''comment-'', showAdvanced = False \<rparr>"

subsection \<open>Conversion options\<close>

fun getCommentRenderMode :: "CommentMode \<Rightarrow> CommentRenderMode" where
  "getCommentRenderMode Mode_endnote = EndnoteStyle"
| "getCommentRenderMode Mode_inline = Inline"
| "getCommentRenderMode Mode_margin = Margin"
| "getCommentRenderMode Mode_disabled = Disabled"

definition getConvertOptions :: "ViewerState \<Rightarrow> ConvertOptions" where
  "getConvertOptions s =
     \<lparr> opt_commentRenderMode = getCommentRenderMode (commentMode s),
       opt_pageTitle = pageTitle s,
       opt_cssPrefix = cssPrefix s,
       opt_fabricateClasses = fabricateClasses s,
       opt_additionalCss = (if additionalCss s = [] then None else Some (additionalCss s)),
       opt_commentCssClassPrefix = commentCssClassPrefix s,
       opt_paginationMode = (if enablePagination s then Paginated else PaginationMode_None),
       opt_paginationScale = (if enablePagination s then Some (paginationScale s) else None) \<rparr>"

subsection \<open>Handlers\<close>

definition handleFileChange :: "File option \<Rightarrow> ViewerState \<Rightarrow> ViewerState \<times> HookCall list" where
  "handleFileChange selected s =
     (case selected of
        None \<Rightarrow> (s, [])
      | Some f \<Rightarrow> (s \<lparr> fileName := file_name f, pendingFile := Some f \<rparr>,
                   [Convert f (getConvertOptions s)]))"

definition reconvert :: "ViewerState \<Rightarrow> ViewerState \<times> HookCall list" where
  "reconvert s =
     (case pendingFile s of
        None \<Rightarrow> (s, [])
      | Some f \<Rightarrow> (s, [Convert f (getConvertOptions s)]))"

definition handleCommentModeChange :: "CommentMode \<Rightarrow> ViewerState \<Rightarrow> ViewerState \<times> HookCall list" where
  "handleCommentModeChange mode s =
     (s \<lparr> commentMode := mode \<rparr>,
      (case pendingFile s of
         None \<Rightarrow> []
       | Some f \<Rightarrow>
           [Convert f ((getConvertOptions s) \<lparr> opt_commentRenderMode := getCommentRenderMode mode \<rparr>)]))"

definition handlePaginationToggle :: "bool \<Rightarrow> ViewerState \<Rightarrow> ViewerState \<times> HookCall list" where
  "handlePaginationToggle enabled s =
     (s \<lparr> enablePagination := enabled \<rparr>,
      (case pendingFile s of
         None \<Rightarrow> []
       | Some f \<Rightarrow>
           [Convert f
              \<lparr> opt_commentRenderMode = getCommentRenderMode (commentMode s),
                opt_pageTitle = pageTitle s,
                opt_cssPrefix = cssPrefix s,
                opt_fabricateClasses = fabricateClasses s,
                opt_additionalCss = (if additionalCss s = [] then None else Some (additionalCss s)),
                opt_commentCssClassPrefix = commentCssClassPrefix s,
                opt_paginationMode = (if enabled then Paginated else PaginationMode_None),
                opt_paginationScale = (if enabled then Some (paginationScale s) else None) \<rparr>]))"

definition handleClear :: "ViewerState \<Rightarrow> ViewerState \<times> HookCall list" where
  "handleClear s = (s \<lparr> fileName := '''', pendingFile := None \<rparr>, [ClearCall])"

text \<open>The \<^verbatim>\<open>onChange\<close> handler of the "Fabricate CSS classes" checkbox.\<close>

definition handleFabricateClassesChange :: "bool \<Rightarrow> ViewerState \<Rightarrow> ViewerState \<times> HookCall list" where
  "handleFabricateClassesChange checked s =
     (s \<lparr> fabricateClasses := checked \<rparr>,
      (case pendingFile s of
         None \<Rightarrow> []
       | Some f \<Rightarrow> [Convert f ((getConvertOptions s) \<lparr> opt_fabricateClasses := checked \<rparr>)]))"

subsection \<open>Events of the component\<close>

text \<open>
  The events the rendered inputs deliver, each with the handler the source attaches to
  it: the slider of the page scale stores the value on \<^verbatim>\<open>onChange\<close> and calls
  \<open>reconvert\<close> on \<^verbatim>\<open>onMouseUp\<close> and \<^verbatim>\<open>onTouchEnd\<close>; the text fields (page title, CSS
  prefix, comment CSS prefix, additional CSS) store on \<^verbatim>\<open>onChange\<close> and call
  \<open>reconvert\<close> on \<^verbatim>\<open>onBlur\<close>; the "Show page numbers" checkbox only stores.
\<close>

datatype Event =
    FileChange "File option"
  | CommentModeChange CommentMode
  | PaginationToggle bool
  | PaginationScaleChange real
  | PaginationScaleRelease
  | ShowPageNumbersChange bool
  | PageTitleChange string
  | CssPrefixChange string
  | CommentCssClassPrefixChange string
  | AdditionalCssChange string
  | TextFieldBlur
  | FabricateClassesChange bool
  | ToggleAdvanced
  | Clear

fun handle :: "Event \<Rightarrow> ViewerState \<Rightarrow> ViewerState \<times> HookCall list" where
  "handle (FileChange selected) s = handleFileChange selected s"
| "handle (CommentModeChange mode) s = handleCommentModeChange mode s"
| "handle (PaginationToggle enabled) s = handlePaginationToggle enabled s"
| "handle (PaginationScaleChange v) s = (s \<lparr> paginationScale := v \<rparr>, [])"
| "handle PaginationScaleRelease s = reconvert s"
| "handle (ShowPageNumbersChange checked) s = (s \<lparr> showPageNumbers := checked \<rparr>, [])"
| "handle (PageTitleChange v) s = (s \<lparr> pageTitle := v \<rparr>, [])"
| "handle (CssPrefixChange v) s = (s \<lparr> cssPrefix := v \<rparr>, [])"
| "handle (CommentCssClassPrefixChange v) s = (s \<lparr> commentCssClassPrefix := v \<rparr>, [])"
| "handle (AdditionalCssChange v) s = (s \<lparr> additionalCss := v \<rparr>, [])"
| "handle TextFieldBlur s = reconvert s"
| "handle (FabricateClassesChange checked) s = handleFabricateClassesChange checked s"
| "handle ToggleAdvanced s = (s \<lparr> showAdvanced := \<not> showAdvanced s \<rparr>, [])"
| "handle Clear s = handleClear s"

subsection \<open>The settings merge of the specification\<close>

text \<open>
  The spec's \<open>updateSettings(partial)\<close> merges a recognised settings field into the
  current settings. A settings-change event is a change of one of the nine fields;
  \<open>mergeSettings\<close> is the state with that field replaced.
\<close>

fun isSettingsChange :: "Event \<Rightarrow> bool" where
  "isSettingsChange (CommentModeChange mode) = True"
| "isSettingsChange (PaginationToggle enabled) = True"
| "isSettingsChange (PaginationScaleChange v) = True"
| "isSettingsChange (ShowPageNumbersChange checked) = True"
| "isSettingsChange (PageTitleChange v) = True"
| "isSettingsChange (CssPrefixChange v) = True"
| "isSettingsChange (CommentCssClassPrefixChange v) = True"
| "isSettingsChange (AdditionalCssChange v) = True"
| "isSettingsChange (FabricateClassesChange checked) = True"
| "isSettingsChange ev = False"

fun mergeSettings :: "Event \<Rightarrow> ViewerState \<Rightarrow> ViewerState" where
  "mergeSettings (CommentModeChange mode) s = s \<lparr> commentMode := mode \<rparr>"
| "mergeSettings (PaginationToggle enabled) s = s \<lparr> enablePagination := enabled \<rparr>"
| "mergeSettings (PaginationScaleChange v) s = s \<lparr> paginationScale := v \<rparr>"
| "mergeSettings (ShowPageNumbersChange checked) s = s \<lparr> showPageNumbers := checked \<rparr>"
| "mergeSettings (PageTitleChange v) s = s \<lparr> pageTitle := v \<rparr>"
| "mergeSettings (CssPrefixChange v) s = s \<lparr> cssPrefix := v \<rparr>"
| "mergeSettings (CommentCssClassPrefixChange v) s = s \<lparr> commentCssClassPrefix := v \<rparr>"
| "mergeSettings (AdditionalCssChange v) s = s \<lparr> additionalCss := v \<rparr>"
| "mergeSettings (FabricateClassesChange checked) s = s \<lparr> fabricateClasses := checked \<rparr>"
| "mergeSettings ev s = s"

text \<open>The settings changes whose handler calls \<open>convert\<close> itself, and the events that
  commit a stored value by calling \<open>reconvert\<close>.\<close>

fun convertsOnChange :: "Event \<Rightarrow> bool" where
  "convertsOnChange (CommentModeChange mode) = True"
| "convertsOnChange (PaginationToggle enabled) = True"
| "convertsOnChange (FabricateClassesChange checked) = True"
| "convertsOnChange ev = False"

fun isCommit :: "Event \<Rightarrow> bool" where
  "isCommit PaginationScaleRelease = True"
| "isCommit TextFieldBlur = True"
| "isCommit ev = False"

text \<open>A file, and the state after selecting it in the initial state.\<close>

definition exampleFile :: File where
  "exampleFile = \<lparr> file_name = ''contract.docx'', file_bytes = [80, 75, 3, 4] \<rparr>"

definition loadedState :: ViewerState where
  "loadedState = fst (handle (FileChange (Some exampleFile)) initialState)"

section \<open>AnnotationViewer: the annotation mutator\<close>

subsection \<open>Data\<close>

text \<open>
  The hook \<^verbatim>\<open>useAnnotations\<close> belongs to the engine package: its functions \<^verbatim>\<open>add\<close> and
  \<^verbatim>\<open>remove\<close> are parameters of the handlers, acting on a hook state \<open>'h\<close> (the annotation
  list and the document bytes live there). An awaited call resolves with a value or
  rejects with a thrown value; the handler distinguishes a thrown \<^verbatim>\<open>Error\<close>, which
  carries a message, from any other thrown value.
\<close>

datatype Thrown = ErrorObject string | OtherValue

datatype 'a Outcome = Resolved 'a | Rejected Thrown

record Annotation =
  ann_id :: string
  ann_labelId :: string
  ann_label :: string
  ann_color :: string
  annotatedText :: "string option"
  ann_author :: "string option"
  created :: "string option"

record AddAnnotationRequest =
  req_id :: string
  req_labelId :: string
  req_label :: string
  req_color :: "string option"
  req_searchText :: "string option"
  req_occurrence :: int

text \<open>
  Modelled from the spec: the type \<^verbatim>\<open>AddAnnotationResponse\<close> of the engine package; the
  spec gives \<open>addAnnotation\<close> the result \<open>{success, annotation?, mutatedBytes?}\<close>.
\<close>

record AddAnnotationResponse =
  success :: bool
  annotation :: "Annotation option"
  mutatedBytes :: "nat list option"

text \<open>\<^verbatim>\<open>Partial<AddAnnotationRequest>\<close>: every field may be absent.\<close>

record NewAnnotation =
  na_id :: "string option"
  na_labelId :: "string option"
  na_label :: "string option"
  na_color :: "string option"
  na_searchText :: "string option"
  na_occurrence :: "int option"

record FormState =
  av_file :: "File option"
  av_fileName :: string
  showAddForm :: bool
  newAnnotation :: NewAnnotation
  isAdding :: bool
  addError :: "string option"

definition blankAnnotation :: NewAnnotation where
  "blankAnnotation =
     \<lparr> na_id = Some '''', na_labelId = Some '''', na_label = Some '''',
       na_color = Some ''#FFEB3B'', na_searchText = Some '''', na_occurrence = Some 1 \<rparr>"

definition initialForm :: FormState where
  "initialForm =
     \<lparr> av_file = None, av_fileName = '''', showAddForm = False,
       newAnnotation = blankAnnotation, isAdding = False, addError = None \<rparr>"

subsection \<open>JavaScript helpers\<close>

text \<open>\<^verbatim>\<open>!s\<close> for an optional string: absent or empty.\<close>

definition falsy :: "string option \<Rightarrow> bool" where
  "falsy s = (case s of None \<Rightarrow> True | Some v \<Rightarrow> v = [])"

text \<open>\<^verbatim>\<open>n || 1\<close> for an optional number (\<^verbatim>\<open>undefined\<close>, \<^verbatim>\<open>NaN\<close> and 0 are falsy).\<close>

definition orOne :: "int option \<Rightarrow> int" where
  "orOne n = (case n of None \<Rightarrow> 1 | Some v \<Rightarrow> if v = 0 then 1 else v)"

text \<open>\<^verbatim>\<open>.replace(/\s+/g, '_')\<close>: every maximal run of white space becomes one underscore.\<close>

function replaceWhitespaceRuns :: "string \<Rightarrow> string" where
  "replaceWhitespaceRuns [] = []"
| "replaceWhitespaceRuns (c # cs) =
     (if isWhiteSpace c then CHR ''_'' # replaceWhitespaceRuns (dropWhile isWhiteSpace cs)
      else c # replaceWhitespaceRuns cs)"
  by pat_completeness auto
termination
  by (relation "measure length") (auto simp: le_imp_less_Suc length_dropWhile_le)

text \<open>The decimal numeral of a natural number, as a template literal prints it.\<close>

definition digit_char :: "nat \<Rightarrow> char" where
  "digit_char d = ''0123456789'' ! d"

function show_nat :: "nat \<Rightarrow> string" where
  "show_nat n = (if n < 10 then [digit_char n] else show_nat (n div 10) @ [digit_char (n mod 10)])"
  by pat_completeness auto
termination
  by (relation "measure id") auto

declare show_nat.simps [simp del]

text \<open>
  \<^verbatim>\<open>parseInt(s)\<close> without a radix: leading white space, an optional sign, an optional
  \<^verbatim>\<open>0x\<close> prefix selecting radix 16, then the longest run of digits of the radix;
  \<^verbatim>\<open>NaN\<close> (here \<open>None\<close>) when there is no digit. The result is an \<^typ>\<open>int\<close>.
\<close>

definition digitValue :: "char \<Rightarrow> nat option" where
  "digitValue c =
     map_of (zip ''0123456789abcdefghijklmnopqrstuvwxyz''
               [0, 1, 2, 3, 4, 5, 6, 7, 8, 9, 10, 11, 12, 13, 14, 15, 16, 17, 18, 19, 20, 21,
                22, 23, 24, 25, 26, 27, 28, 29, 30, 31, 32, 33, 34, 35])
       (charToLowerCase c)"

fun leadingDigits :: "nat \<Rightarrow> string \<Rightarrow> nat list" where
  "leadingDigits radix [] = []"
| "leadingDigits radix (c # cs) =
     (case digitValue c of
        None \<Rightarrow> []
      | Some d \<Rightarrow> if d < radix then d # leadingDigits radix cs else [])"

definition digitsValue :: "nat \<Rightarrow> nat list \<Rightarrow> nat" where
  "digitsValue radix ds = foldl (\<lambda>acc d. acc * radix + d) 0 ds"

definition parseMagnitude :: "string \<Rightarrow> int option" where
  "parseMagnitude s =
     (if prefix ''0x'' s \<or> prefix ''0X'' s
      then (case leadingDigits 16 (drop 2 s) of
              [] \<Rightarrow> None
            | d # ds \<Rightarrow> Some (int (digitsValue 16 (d # ds))))
      else (case leadingDigits 10 s of
              [] \<Rightarrow> None
            | d # ds \<Rightarrow> Some (int (digitsValue 10 (d # ds)))))"

definition parseInt :: "string \<Rightarrow> int option" where
  "parseInt s =
     (case dropWhile isWhiteSpace s of
        [] \<Rightarrow> None
      | c # cs \<Rightarrow>
          if c = CHR ''-'' then map_option uminus (parseMagnitude cs)
          else if c = CHR ''+'' then parseMagnitude cs
          else parseMagnitude (c # cs))"

text \<open>\<^verbatim>\<open>a || b\<close> for an optional string \<open>a\<close> and a string \<open>b\<close>.\<close>

definition orElse :: "string option \<Rightarrow> string \<Rightarrow> string" where
  "orElse a b = (case a of None \<Rightarrow> b | Some v \<Rightarrow> if v = [] then b else v)"

text \<open>
  \<^verbatim>\<open>s.replace(pat, rep)\<close> with a string pattern: the first occurrence of \<open>pat\<close> is
  replaced, and \<open>s\<close> is returned as it is when there is none. (The replacement used by
  the source contains no \<^verbatim>\<open>$\<close>.)
\<close>

fun replaceFirst :: "string \<Rightarrow> string \<Rightarrow> string \<Rightarrow> string" where
  "replaceFirst pat rep [] = (if pat = [] then rep else [])"
| "replaceFirst pat rep (c # cs) =
     (if prefix pat (c # cs) then rep @ drop (length pat) (c # cs)
      else c # replaceFirst pat rep cs)"

subsection \<open>Form handlers\<close>

definition handleFileChangeAV :: "File option \<Rightarrow> FormState \<Rightarrow> FormState" where
  "handleFileChangeAV selected ui =
     (case selected of
        None \<Rightarrow> ui
      | Some f \<Rightarrow> ui \<lparr> av_file := Some f, av_fileName := file_name f,
                        showAddForm := False, addError := None \<rparr>)"

definition handleClearAV :: "FormState \<Rightarrow> FormState" where
  "handleClearAV ui = ui \<lparr> av_file := None, av_fileName := '''', showAddForm := False, addError := None \<rparr>"

definition labelChange :: "string \<Rightarrow> FormState \<Rightarrow> FormState" where
  "labelChange v ui = ui \<lparr> newAnnotation := (newAnnotation ui) \<lparr> na_label := Some v \<rparr> \<rparr>"

definition searchTextChange :: "string \<Rightarrow> FormState \<Rightarrow> FormState" where
  "searchTextChange v ui = ui \<lparr> newAnnotation := (newAnnotation ui) \<lparr> na_searchText := Some v \<rparr> \<rparr>"

definition colorChange :: "string \<Rightarrow> FormState \<Rightarrow> FormState" where
  "colorChange v ui = ui \<lparr> newAnnotation := (newAnnotation ui) \<lparr> na_color := Some v \<rparr> \<rparr>"

text \<open>\<^verbatim>\<open>occurrence: parseInt(e.target.value) || 1\<close>\<close>

definition occurrenceChange :: "string \<Rightarrow> FormState \<Rightarrow> FormState" where
  "occurrenceChange v ui =
     ui \<lparr> newAnnotation := (newAnnotation ui) \<lparr> na_occurrence := Some (orOne (parseInt v)) \<rparr> \<rparr>"

subsection \<open>Adding an annotation\<close>

text \<open>The request built by \<open>handleAddAnnotation\<close>; \<open>now\<close> is the value of \<^verbatim>\<open>Date.now()\<close>.\<close>

definition buildRequest :: "nat \<Rightarrow> NewAnnotation \<Rightarrow> AddAnnotationRequest" where
  "buildRequest now na =
     \<lparr> req_id = orElse (na_id na) (''annot-'' @ show_nat now),
       req_labelId =
         orElse (na_labelId na)
           (orElse (map_option (\<lambda>l. replaceWhitespaceRuns (toLowerCase l)) (na_label na)) ''''),
       req_label = orElse (na_label na) '''',
       req_color = na_color na,
       req_searchText = na_searchText na,
       req_occurrence = orOne (na_occurrence na) \<rparr>"

text \<open>The form after the awaited \<open>add\<close> has settled: the branches of \<^verbatim>\<open>try\<close>,
  \<^verbatim>\<open>catch\<close> and \<^verbatim>\<open>finally\<close>.\<close>

fun afterAdd :: "FormState \<Rightarrow> AddAnnotationResponse option Outcome \<Rightarrow> FormState" where
  "afterAdd ui (Resolved result) =
     (if (case result of None \<Rightarrow> False | Some r \<Rightarrow> success r)
      then ui \<lparr> newAnnotation := blankAnnotation, showAddForm := False, isAdding := False \<rparr>
      else ui \<lparr> addError := Some ''Failed to add annotation'', isAdding := False \<rparr>)"
| "afterAdd ui (Rejected (ErrorObject msg)) = ui \<lparr> addError := Some msg, isAdding := False \<rparr>"
| "afterAdd ui (Rejected OtherValue) =
     ui \<lparr> addError := Some ''Failed to add annotation'', isAdding := False \<rparr>"

text \<open>
  \<open>handleAddAnnotation\<close> returns the form, the hook state and the list of requests it
  passed to \<open>add\<close>.
\<close>

definition handleAddAnnotation ::
  "('h \<Rightarrow> AddAnnotationRequest \<Rightarrow> AddAnnotationResponse option Outcome \<times> 'h) \<Rightarrow> nat \<Rightarrow>
   FormState \<Rightarrow> 'h \<Rightarrow> FormState \<times> 'h \<times> AddAnnotationRequest list" where
  "handleAddAnnotation add now ui h =
     (if falsy (na_label (newAnnotation ui)) \<or> falsy (na_searchText (newAnnotation ui))
      then (ui \<lparr> addError := Some ''Label and search text are required'' \<rparr>, h, [])
      else
        (afterAdd (ui \<lparr> isAdding := True, addError := None \<rparr>)
           (fst (add h (buildRequest now (newAnnotation ui)))),
         snd (add h (buildRequest now (newAnnotation ui))),
         [buildRequest now (newAnnotation ui)]))"

subsection \<open>Removing an annotation\<close>

text \<open>
  \<open>handleRemoveAnnotation\<close> awaits \<open>remove\<close> inside \<^verbatim>\<open>try\<close>; the \<^verbatim>\<open>catch\<close> block writes
  to the console. The result is how the handler itself settles, the hook state and the
  console.
\<close>

definition handleRemoveAnnotation ::
  "('h \<Rightarrow> string \<Rightarrow> unit Outcome \<times> 'h) \<Rightarrow> string \<Rightarrow> 'h \<Rightarrow> (string \<times> Thrown) list \<Rightarrow>
   unit Outcome \<times> 'h \<times> (string \<times> Thrown) list" where
  "handleRemoveAnnotation remove annotationId h console =
     (case fst (remove h annotationId) of
        Resolved u \<Rightarrow> (Resolved (), snd (remove h annotationId), console)
      | Rejected err \<Rightarrow>
          (Resolved (), snd (remove h annotationId),
           console @ [(''Failed to remove annotation:'', err)]))"

subsection \<open>Download\<close>

record Download =
  blob_bytes :: "nat list"
  blob_type :: string
  download :: string

definition handleDownload :: "FormState \<Rightarrow> nat list option \<Rightarrow> Download list" where
  "handleDownload ui documentBytes =
     (case documentBytes of
        None \<Rightarrow> []
      | Some bytes \<Rightarrow>
          [\<lparr> blob_bytes = bytes,
             blob_type = ''application/vnd.openxmlformats-officedocument.wordprocessingml.document'',
             download = replaceFirst ''.docx'' ''-annotated.docx'' (av_fileName ui) \<rparr>])"

subsection \<open>The hook, from the specification\<close>




text \<open>
  Modelled from the spec: the function \<open>add\<close> of the hook \<^verbatim>\<open>useAnnotations\<close> (engine
  package, not among the sources). The spec: "On engine success, the returned annotation
  is appended to \<open>annotations\<close> and \<open>documentBytes\<close> is replaced with the engine's mutated
  buffer. On engine failure, state is unchanged and the failure is surfaced as a
  recoverable error." The engine is a parameter.
\<close>

record MutatorState =
  annotations :: "Annotation list"
  documentBytes :: "nat list option"


subsection \<open>Example inputs\<close>

text \<open>The form after the user has typed a label, a search text and the occurrence
  \<open>-5\<close>.\<close>

definition typedForm :: FormState where
  "typedForm =
     occurrenceChange ''-5''
       (searchTextChange ''liability'' (labelChange ''Key Term'' (initialForm \<lparr> showAddForm := True \<rparr>)))"

section \<open>Properties of the revision classifier\<close>

lemma count_isInsertion:
  "length (filter isInsertion revs) = count_list (map revisionType revs) Inserted"
  by (induction revs) (simp_all add: isInsertion_def)

lemma count_isDeletion:
  "length (filter isDeletion revs) = count_list (map revisionType revs) Deleted"
  by (induction revs) (simp_all add: isDeletion_def)

lemma count_isMove:
  "length (filter isMove revs) = count_list (map revisionType revs) Moved"
  by (induction revs) (simp_all add: isMove_def)

lemma count_isFormatChange:
  "length (filter isFormatChange revs) = count_list (map revisionType revs) FormatChanged"
  by (induction revs) (simp_all add: isFormatChange_def)

lemma length_filter_split:
  "length (filter P xs) = length (filter (\<lambda>x. P x \<and> Q x) xs) + length (filter (\<lambda>x. P x \<and> \<not> Q x) xs)"
  by (induction xs) simp_all

text \<open>
  C2. The counts of \<open>stats\<close> are the numbers of records of each kind in the list; a move
  record counts once, whether it is a move source or a move destination, so the moves
  count is the number of sources plus the number of destinations (nothing is halved).
\<close>

theorem stats_counts_by_kind:
  "insertions (stats revs) = count_list (map revisionType revs) Inserted \<and>
   deletions (stats revs) = count_list (map revisionType revs) Deleted \<and>
   moves (stats revs) = count_list (map revisionType revs) Moved \<and>
   formatting (stats revs) = count_list (map revisionType revs) FormatChanged \<and>
   moves (stats revs) =
     length (filter (\<lambda>r. isMove r \<and> isMoveSource r = Some True) revs) +
     length (filter (\<lambda>r. isMove r \<and> isMoveSource r \<noteq> Some True) revs)"
proof -
  have counts:
    "insertions (stats revs) = count_list (map revisionType revs) Inserted"
    "deletions (stats revs) = count_list (map revisionType revs) Deleted"
    "moves (stats revs) = count_list (map revisionType revs) Moved"
    "formatting (stats revs) = count_list (map revisionType revs) FormatChanged"
    by (simp_all add: stats_def count_isInsertion count_isDeletion count_isMove
        count_isFormatChange)
  have "moves (stats revs) = length (filter isMove revs)"
    by (simp add: stats_def)
  also have "\<dots> = length (filter (\<lambda>r. isMove r \<and> isMoveSource r = Some True) revs) +
     length (filter (\<lambda>r. isMove r \<and> isMoveSource r \<noteq> Some True) revs)"
    by (rule length_filter_split)
  finally show ?thesis using counts by simp
qed

text \<open>
  C5. On \<open>oldProperties = {bold: "true"}\<close> and \<open>newProperties = {bold: "false"}\<close> the
  result is the single entry with property \<open>Bold\<close>, old value \<open>Yes\<close> and new value \<open>No\<close>.
\<close>

theorem getFormatChanges_bold_example:
  "getFormatChanges (formatRevision (Some [(''bold'', ''true'')]) (Some [(''bold'', ''false'')]))
     = [\<lparr> property = ''Bold'', oldValue = Some ''Yes'', newValue = Some ''No'' \<rparr>]"
  by (simp add: getFormatChanges_def formatRevision_def isValidPropertyValue_def
      lookupProperty_def pairedNewValue_def formatPropertyName_def formatPropertyValue_def
      trim_def isUpperAZ_def isWhiteSpace_def isLineTerminator_def charToUpperCase_def)


lemma isValid_Nil: "\<not> isValidPropertyValue []"
  by (simp add: isValidPropertyValue_def)

lemma pairedNewValue_lookup:
  "pairedNewValue (lookupProperty np k) =
     (case map_of (case np of None \<Rightarrow> [] | Some e \<Rightarrow> e) k of
        None \<Rightarrow> None
      | Some nv \<Rightarrow> if isValidPropertyValue nv then Some (formatPropertyValue nv) else None)"
  by (auto simp: pairedNewValue_def lookupProperty_def isValid_Nil split: option.splits)

lemma processOld_eq:
  "processOld old np (changes, pk) =
     (changes @ map (pairedEntry (case np of None \<Rightarrow> [] | Some e \<Rightarrow> e)) (filter passes old),
      pk \<union> fst ` set (filter passes old))"
proof (induction old arbitrary: changes pk)
  case Nil
  then show ?case by simp
next
  case (Cons kv old)
  obtain k v where kv: "kv = (k, v)" by (cases kv)
  show ?case
    by (simp add: kv Cons.IH passes_def pairedEntry_def pairedNewValue_lookup)
qed

lemma processNew_eq:
  "processNew new pk changes =
     changes @ map addOnlyEntry (filter (\<lambda>kv. fst kv \<notin> pk \<and> passes kv) new)"
proof (induction new arbitrary: changes)
  case Nil
  then show ?case by simp
next
  case (Cons kv new)
  obtain k v where kv: "kv = (k, v)" by (cases kv)
  show ?case
    by (simp add: kv Cons.IH passes_def addOnlyEntry_def)
qed

lemma getFormatChanges_eq:
  "getFormatChanges r =
     map (pairedEntry (newEntries r)) (filter passes (oldEntries r)) @
     map addOnlyEntry
       (filter (\<lambda>kv. fst kv \<notin> fst ` set (filter passes (oldEntries r)) \<and> passes kv)
          (newEntries r))"
  by (simp add: getFormatChanges_def oldEntries_def newEntries_def processOld_eq processNew_eq
      split: option.splits)

lemma rejected_not_valid:
  "str_includes v ''<'' \<or> str_includes v ''xmlns'' \<or> str_includes v ''Unid='' \<or> length v > 100
   \<Longrightarrow> \<not> isValidPropertyValue v"
  by (auto simp: isValidPropertyValue_def)

lemma shown_old_value_valid:
  assumes "item \<in> set (getFormatChanges r)" and "oldValue item = Some d"
  shows "\<exists>kv \<in> set (oldEntries r). isValidPropertyValue (snd kv) \<and>
           property item = formatPropertyName (fst kv) \<and> d = formatPropertyValue (snd kv)"
proof -
  from assms(1) consider
    (old) kv where "kv \<in> set (oldEntries r)" "passes kv" "item = pairedEntry (newEntries r) kv"
  | (new) kv where "kv \<in> set (newEntries r)" "passes kv" "item = addOnlyEntry kv"
    by (auto simp: getFormatChanges_eq)
  then show ?thesis
  proof cases
    case old
    with assms(2) show ?thesis by (auto simp: pairedEntry_def passes_def)
  next
    case new
    with assms(2) show ?thesis by (simp add: addOnlyEntry_def)
  qed
qed

lemma shown_new_value_valid:
  assumes "item \<in> set (getFormatChanges r)" and d: "newValue item = Some d"
  shows "\<exists>kv \<in> set (newEntries r). isValidPropertyValue (snd kv) \<and>
           property item = formatPropertyName (fst kv) \<and> d = formatPropertyValue (snd kv)"
proof -
  from assms(1) consider
    (old) kv where "kv \<in> set (oldEntries r)" "passes kv" "item = pairedEntry (newEntries r) kv"
  | (new) kv where "kv \<in> set (newEntries r)" "passes kv" "item = addOnlyEntry kv"
    by (auto simp: getFormatChanges_eq)
  then show ?thesis
  proof cases
    case old
    from d old(3) obtain nv where nv: "map_of (newEntries r) (fst kv) = Some nv"
      "isValidPropertyValue nv" "d = formatPropertyValue nv"
      by (auto simp: pairedEntry_def split: option.splits if_splits)
    from nv(1) have "(fst kv, nv) \<in> set (newEntries r)" by (rule map_of_SomeD)
    with nv old(3) show ?thesis
      by (intro bexI[of _ "(fst kv, nv)"]) (simp_all add: pairedEntry_def)
  next
    case new
    with d show ?thesis by (auto simp: addOnlyEntry_def passes_def)
  qed
qed

lemma oldEntries_dropKey: "oldEntries (dropKey k r) = filter (\<lambda>kv. fst kv \<noteq> k) (oldEntries r)"
  by (simp add: oldEntries_def dropKey_def split: option.splits)

lemma newEntries_dropKey: "newEntries (dropKey k r) = filter (\<lambda>kv. fst kv \<noteq> k) (newEntries r)"
  by (simp add: newEntries_def dropKey_def split: option.splits)

lemma map_of_filter_other:
  "k' \<noteq> k \<Longrightarrow> map_of (filter (\<lambda>kv. fst kv \<noteq> k) xs) k' = map_of xs k'"
  by (induction xs) auto

lemma dropKey_rejected:
  assumes "\<forall>v. (k, v) \<in> set (oldEntries r) \<union> set (newEntries r) \<longrightarrow> \<not> isValidPropertyValue v"
  shows "getFormatChanges (dropKey k r) = getFormatChanges r"
proof -
  have notk: "fst kv \<noteq> k" if "kv \<in> set (oldEntries r) \<union> set (newEntries r)" "passes kv" for kv
    using that assms by (cases kv) (auto simp: passes_def)
  have old: "filter passes (filter (\<lambda>kv. fst kv \<noteq> k) (oldEntries r)) = filter passes (oldEntries r)"
    using notk by (auto simp: filter_id_conv intro!: filter_cong)
  have new: "filter (\<lambda>kv. fst kv \<notin> S \<and> passes kv) (filter (\<lambda>kv. fst kv \<noteq> k) (newEntries r))
           = filter (\<lambda>kv. fst kv \<notin> S \<and> passes kv) (newEntries r)" for S
    using notk by (auto intro!: filter_cong)
  have paired: "map (pairedEntry (filter (\<lambda>kv. fst kv \<noteq> k) (newEntries r))) (filter passes (oldEntries r))
              = map (pairedEntry (newEntries r)) (filter passes (oldEntries r))"
    using notk by (auto simp: pairedEntry_def map_of_filter_other)
  have "getFormatChanges (dropKey k r) =
      map (pairedEntry (filter (\<lambda>kv. fst kv \<noteq> k) (newEntries r)))
        (filter passes (filter (\<lambda>kv. fst kv \<noteq> k) (oldEntries r))) @
      map addOnlyEntry
        (filter (\<lambda>kv. fst kv \<notin> fst ` set (filter passes (filter (\<lambda>kv. fst kv \<noteq> k) (oldEntries r)))
                   \<and> passes kv)
           (filter (\<lambda>kv. fst kv \<noteq> k) (newEntries r)))"
    by (simp only: getFormatChanges_eq[of "dropKey k r"] oldEntries_dropKey newEntries_dropKey)
  also have "\<dots> = getFormatChanges r"
    by (simp only: old new paired getFormatChanges_eq[of r])
  finally show ?thesis .
qed

lemma valid_old_entry_kept:
  assumes "(k, v) \<in> set (oldEntries r)" and "isValidPropertyValue v"
  shows "\<lparr> property = formatPropertyName k, oldValue = Some (formatPropertyValue v),
           newValue = (case map_of (newEntries r) k of
                         None \<Rightarrow> None
                       | Some nv \<Rightarrow> if isValidPropertyValue nv
                                    then Some (formatPropertyValue nv) else None) \<rparr>
         \<in> set (getFormatChanges r)"
proof -
  from assms have "(k, v) \<in> set (filter passes (oldEntries r))"
    by (simp add: passes_def)
  then have "pairedEntry (newEntries r) (k, v) \<in> set (getFormatChanges r)"
    by (simp add: getFormatChanges_eq)
  then show ?thesis by (simp add: pairedEntry_def)
qed

lemma valid_new_entry_added:
  assumes "(k, v) \<in> set (newEntries r)" and "isValidPropertyValue v"
    and "\<forall>w. (k, w) \<in> set (oldEntries r) \<longrightarrow> \<not> isValidPropertyValue w"
  shows "\<lparr> property = formatPropertyName k, oldValue = None,
           newValue = Some (formatPropertyValue v) \<rparr> \<in> set (getFormatChanges r)"
proof -
  from assms(3) have "k \<notin> fst ` set (filter passes (oldEntries r))"
    by (auto simp: passes_def)
  with assms(1,2) have "(k, v) \<in> set (filter
      (\<lambda>kv. fst kv \<notin> fst ` set (filter passes (oldEntries r)) \<and> passes kv) (newEntries r))"
    by (simp add: passes_def)
  then have "addOnlyEntry (k, v) \<in> set (getFormatChanges r)"
    unfolding getFormatChanges_eq[of r] by (intro UnI2 imageI | simp only: set_append set_map)+
  then show ?thesis by (simp add: addOnlyEntry_def)
qed

lemma length_filter_conj_le:
  "length (filter (\<lambda>x. P x \<and> Q x) xs) \<le> length (filter Q xs)"
  by (induction xs) auto

lemma length_filter_conj_less:
  "x \<in> set xs \<Longrightarrow> Q x \<Longrightarrow> \<not> P x \<Longrightarrow>
   length (filter (\<lambda>x. P x \<and> Q x) xs) < length (filter Q xs)"
proof (induction xs)
  case Nil
  then show ?case by simp
next
  case (Cons y ys)
  show ?case
  proof (cases "y = x")
    case True
    with Cons.prems show ?thesis
      using length_filter_conj_le[of P Q ys] by simp
  next
    case False
    with Cons show ?thesis by auto
  qed
qed

lemma length_getFormatChanges_dropKey:
  "length (getFormatChanges (dropKey k r)) =
     length (filter (\<lambda>kv. fst kv \<noteq> k \<and> passes kv) (oldEntries r)) +
     length (filter (\<lambda>kv. fst kv \<noteq> k \<and>
                (fst kv \<notin> fst ` set (filter passes (oldEntries r)) \<and> passes kv)) (newEntries r))"
proof -
  have "filter (\<lambda>kv. fst kv \<noteq> k \<and>
           fst kv \<notin> fst ` set (filter (\<lambda>kv. fst kv \<noteq> k \<and> passes kv) (oldEntries r)) \<and> passes kv)
          (newEntries r)
      = filter (\<lambda>kv. fst kv \<noteq> k \<and>
           (fst kv \<notin> fst ` set (filter passes (oldEntries r)) \<and> passes kv)) (newEntries r)"
    by (rule filter_cong) (auto simp: image_iff)
  then show ?thesis
    by (simp add: getFormatChanges_eq[of "dropKey k r"] oldEntries_dropKey newEntries_dropKey
        conj_commute)
qed

lemma dropKey_shorter:
  assumes "(k, w) \<in> set (oldEntries r) \<union> set (newEntries r)" and "isValidPropertyValue w"
  shows "length (getFormatChanges (dropKey k r)) < length (getFormatChanges r)"
proof -
  let ?S = "fst ` set (filter passes (oldEntries r))"
  let ?Q = "\<lambda>kv. fst kv \<notin> ?S \<and> passes kv"
  have len: "length (getFormatChanges r)
      = length (filter passes (oldEntries r)) + length (filter ?Q (newEntries r))"
    by (simp add: getFormatChanges_eq[of r])
  have le1: "length (filter (\<lambda>kv. fst kv \<noteq> k \<and> passes kv) (oldEntries r))
      \<le> length (filter passes (oldEntries r))"
    by (rule length_filter_conj_le)
  have le2: "length (filter (\<lambda>kv. fst kv \<noteq> k \<and> ?Q kv) (newEntries r))
      \<le> length (filter ?Q (newEntries r))"
    by (rule length_filter_conj_le)
  show ?thesis
  proof (cases "k \<in> ?S")
    case True
    then obtain v where "(k, v) \<in> set (oldEntries r)" "passes (k, v)"
      by auto
    then have "length (filter (\<lambda>kv. fst kv \<noteq> k \<and> passes kv) (oldEntries r))
      < length (filter passes (oldEntries r))"
      by (intro length_filter_conj_less[of "(k, v)"]) simp_all
    with le2 show ?thesis
      by (simp only: len length_getFormatChanges_dropKey)
  next
    case False
    with assms have "(k, w) \<in> set (newEntries r)"
      by (force simp: passes_def image_iff)
    moreover from False assms(2) have "?Q (k, w)" by (simp add: passes_def)
    ultimately have "length (filter (\<lambda>kv. fst kv \<noteq> k \<and> ?Q kv) (newEntries r))
      < length (filter ?Q (newEntries r))"
      by (intro length_filter_conj_less[of "(k, w)"]) simp_all
    with le1 show ?thesis
      by (simp only: len length_getFormatChanges_dropKey)
  qed
qed

lemma dropKey_unchanged_iff:
  "(\<forall>w. (k, w) \<in> set (oldEntries r) \<union> set (newEntries r) \<longrightarrow> \<not> isValidPropertyValue w)
   \<longleftrightarrow> getFormatChanges (dropKey k r) = getFormatChanges r"
proof
  assume "\<forall>w. (k, w) \<in> set (oldEntries r) \<union> set (newEntries r) \<longrightarrow> \<not> isValidPropertyValue w"
  then show "getFormatChanges (dropKey k r) = getFormatChanges r"
    by (rule dropKey_rejected)
next
  assume eq: "getFormatChanges (dropKey k r) = getFormatChanges r"
  show "\<forall>w. (k, w) \<in> set (oldEntries r) \<union> set (newEntries r) \<longrightarrow> \<not> isValidPropertyValue w"
  proof (intro allI impI notI)
    fix w assume "(k, w) \<in> set (oldEntries r) \<union> set (newEntries r)" "isValidPropertyValue w"
    then have "length (getFormatChanges (dropKey k r)) < length (getFormatChanges r)"
      by (rule dropKey_shorter)
    with eq show False by simp
  qed
qed

lemma item_origin:
  assumes "item \<in> set (getFormatChanges r)"
  shows "(\<exists>kv \<in> set (oldEntries r). isValidPropertyValue (snd kv) \<and>
            item = \<lparr> property = formatPropertyName (fst kv),
                     oldValue = Some (formatPropertyValue (snd kv)),
                     newValue = (case map_of (newEntries r) (fst kv) of
                                   None \<Rightarrow> None
                                 | Some nv \<Rightarrow> if isValidPropertyValue nv
                                              then Some (formatPropertyValue nv) else None) \<rparr>) \<or>
         (\<exists>kv \<in> set (newEntries r). isValidPropertyValue (snd kv) \<and>
            (\<forall>w. (fst kv, w) \<in> set (oldEntries r) \<longrightarrow> \<not> isValidPropertyValue w) \<and>
            item = \<lparr> property = formatPropertyName (fst kv), oldValue = None,
                     newValue = Some (formatPropertyValue (snd kv)) \<rparr>)"
proof -
  from assms consider
    (old) kv where "kv \<in> set (oldEntries r)" "passes kv" "item = pairedEntry (newEntries r) kv"
  | (new) kv where "kv \<in> set (newEntries r)" "passes kv"
      "fst kv \<notin> fst ` set (filter passes (oldEntries r))" "item = addOnlyEntry kv"
    by (auto simp: getFormatChanges_eq)
  then show ?thesis
  proof cases
    case old
    then have "\<exists>kv \<in> set (oldEntries r). isValidPropertyValue (snd kv) \<and>
            item = \<lparr> property = formatPropertyName (fst kv),
                     oldValue = Some (formatPropertyValue (snd kv)),
                     newValue = (case map_of (newEntries r) (fst kv) of
                                   None \<Rightarrow> None
                                 | Some nv \<Rightarrow> if isValidPropertyValue nv
                                              then Some (formatPropertyValue nv) else None) \<rparr>"
      by (intro bexI[of _ kv]) (simp_all add: passes_def pairedEntry_def)
    then show ?thesis ..
  next
    case new
    from new(3) have "\<forall>w. (fst kv, w) \<in> set (oldEntries r) \<longrightarrow> \<not> isValidPropertyValue w"
      by (force simp: passes_def image_iff)
    with new have "\<exists>kv \<in> set (newEntries r). isValidPropertyValue (snd kv) \<and>
            (\<forall>w. (fst kv, w) \<in> set (oldEntries r) \<longrightarrow> \<not> isValidPropertyValue w) \<and>
            item = \<lparr> property = formatPropertyName (fst kv), oldValue = None,
                     newValue = Some (formatPropertyValue (snd kv)) \<rparr>"
      by (intro bexI[of _ kv]) (simp_all add: passes_def addOnlyEntry_def)
    then show ?thesis ..
  qed
qed

lemmas rev_eval_defs =
  getFormatChanges_def formatRevision_def isValidPropertyValue_def
  lookupProperty_def pairedNewValue_def formatPropertyName_def formatPropertyValue_def
  trim_def isUpperAZ_def isWhiteSpace_def isLineTerminator_def charToUpperCase_def

text \<open>
  C3, as stated, fails: a key whose new value contains \<open><\<close> keeps its entry when its old
  value is valid (the new value is left out), and a key whose old value contains \<open><\<close>
  gets an add-only entry when its new value is valid.
\<close>

theorem rejected_value_entry_kept_counterexample:
  "str_includes ''<w:b/>'' ''<'' \<and>
   getFormatChanges (formatRevision (Some [(''bold'', ''true'')]) (Some [(''bold'', ''<w:b/>'')]))
     = [\<lparr> property = ''Bold'', oldValue = Some ''Yes'', newValue = None \<rparr>] \<and>
   getFormatChanges (formatRevision (Some [(''bold'', ''<w:b/>'')]) (Some [(''bold'', ''true'')]))
     = [\<lparr> property = ''Bold'', oldValue = None, newValue = Some ''Yes'' \<rparr>]"
  by (simp add: rev_eval_defs)

text \<open>
  C3, amended. A value that contains \<open><\<close>, \<open>xmlns\<close> or \<open>Unid=\<close>, or is longer than 100
  characters, is not a valid property value, and no entry of the result shows such a
  value: an old (new) value that is shown is the display form of a valid value of
  \<open>oldProperties\<close> (\<open>newProperties\<close>) under a key with the entry's property name. The
  filter is per value. Every entry of the result is the paired entry of a valid value of
  \<open>oldProperties\<close> or the add-only entry of a valid value of \<open>newProperties\<close> whose key
  has no valid old value. Every valid value of \<open>oldProperties\<close> has its entry, with the
  new value absent when the value under the same key in \<open>newProperties\<close> is rejected;
  every valid value of \<open>newProperties\<close> whose key has no valid old value has its add-only
  entry, also when the key has a rejected value in \<open>oldProperties\<close>. A key is excluded
  entirely (the result is the same as without the key) exactly when every value it has
  in the two maps is rejected.
\<close>

theorem rejected_values_never_shown:
  "(str_includes v ''<'' \<or> str_includes v ''xmlns'' \<or> str_includes v ''Unid='' \<or> length v > 100
      \<longrightarrow> \<not> isValidPropertyValue v) \<and>
   (\<forall>item \<in> set (getFormatChanges r).
      (\<forall>d. oldValue item = Some d \<longrightarrow>
         (\<exists>kv \<in> set (oldEntries r). isValidPropertyValue (snd kv) \<and>
            property item = formatPropertyName (fst kv) \<and> d = formatPropertyValue (snd kv))) \<and>
      (\<forall>d. newValue item = Some d \<longrightarrow>
         (\<exists>kv \<in> set (newEntries r). isValidPropertyValue (snd kv) \<and>
            property item = formatPropertyName (fst kv) \<and> d = formatPropertyValue (snd kv)))) \<and>
   (\<forall>item \<in> set (getFormatChanges r).
      (\<exists>kv \<in> set (oldEntries r). isValidPropertyValue (snd kv) \<and>
         item = \<lparr> property = formatPropertyName (fst kv),
                  oldValue = Some (formatPropertyValue (snd kv)),
                  newValue = (case map_of (newEntries r) (fst kv) of
                                None \<Rightarrow> None
                              | Some nv \<Rightarrow> if isValidPropertyValue nv
                                           then Some (formatPropertyValue nv) else None) \<rparr>) \<or>
      (\<exists>kv \<in> set (newEntries r). isValidPropertyValue (snd kv) \<and>
         (\<forall>w. (fst kv, w) \<in> set (oldEntries r) \<longrightarrow> \<not> isValidPropertyValue w) \<and>
         item = \<lparr> property = formatPropertyName (fst kv), oldValue = None,
                  newValue = Some (formatPropertyValue (snd kv)) \<rparr>)) \<and>
   (\<forall>key val. (key, val) \<in> set (oldEntries r) \<and> isValidPropertyValue val \<longrightarrow>
      \<lparr> property = formatPropertyName key, oldValue = Some (formatPropertyValue val),
        newValue = (case map_of (newEntries r) key of
                      None \<Rightarrow> None
                    | Some nv \<Rightarrow> if isValidPropertyValue nv
                                 then Some (formatPropertyValue nv) else None) \<rparr>
      \<in> set (getFormatChanges r)) \<and>
   (\<forall>key val nv. (key, val) \<in> set (oldEntries r) \<and> isValidPropertyValue val \<and>
        map_of (newEntries r) key = Some nv \<and> \<not> isValidPropertyValue nv \<longrightarrow>
      \<lparr> property = formatPropertyName key, oldValue = Some (formatPropertyValue val),
        newValue = None \<rparr> \<in> set (getFormatChanges r)) \<and>
   (\<forall>key val. (key, val) \<in> set (newEntries r) \<and> isValidPropertyValue val \<and>
        (\<forall>w. (key, w) \<in> set (oldEntries r) \<longrightarrow> \<not> isValidPropertyValue w) \<longrightarrow>
      \<lparr> property = formatPropertyName key, oldValue = None,
        newValue = Some (formatPropertyValue val) \<rparr> \<in> set (getFormatChanges r)) \<and>
   ((\<forall>w. (k, w) \<in> set (oldEntries r) \<union> set (newEntries r) \<longrightarrow> \<not> isValidPropertyValue w)
      \<longleftrightarrow> getFormatChanges (dropKey k r) = getFormatChanges r)"
proof (intro conjI)
  show "str_includes v ''<'' \<or> str_includes v ''xmlns'' \<or> str_includes v ''Unid='' \<or> length v > 100
      \<longrightarrow> \<not> isValidPropertyValue v"
    using rejected_not_valid[of v] by blast
next
  show "\<forall>item \<in> set (getFormatChanges r).
      (\<forall>d. oldValue item = Some d \<longrightarrow>
         (\<exists>kv \<in> set (oldEntries r). isValidPropertyValue (snd kv) \<and>
            property item = formatPropertyName (fst kv) \<and> d = formatPropertyValue (snd kv))) \<and>
      (\<forall>d. newValue item = Some d \<longrightarrow>
         (\<exists>kv \<in> set (newEntries r). isValidPropertyValue (snd kv) \<and>
            property item = formatPropertyName (fst kv) \<and> d = formatPropertyValue (snd kv)))"
    using shown_old_value_valid[of _ r] shown_new_value_valid[of _ r] by blast
next
  show "\<forall>item \<in> set (getFormatChanges r).
      (\<exists>kv \<in> set (oldEntries r). isValidPropertyValue (snd kv) \<and>
         item = \<lparr> property = formatPropertyName (fst kv),
                  oldValue = Some (formatPropertyValue (snd kv)),
                  newValue = (case map_of (newEntries r) (fst kv) of
                                None \<Rightarrow> None
                              | Some nv \<Rightarrow> if isValidPropertyValue nv
                                           then Some (formatPropertyValue nv) else None) \<rparr>) \<or>
      (\<exists>kv \<in> set (newEntries r). isValidPropertyValue (snd kv) \<and>
         (\<forall>w. (fst kv, w) \<in> set (oldEntries r) \<longrightarrow> \<not> isValidPropertyValue w) \<and>
         item = \<lparr> property = formatPropertyName (fst kv), oldValue = None,
                  newValue = Some (formatPropertyValue (snd kv)) \<rparr>)"
    using item_origin[of _ r] by blast
next
  show "\<forall>key val. (key, val) \<in> set (oldEntries r) \<and> isValidPropertyValue val \<longrightarrow>
      \<lparr> property = formatPropertyName key, oldValue = Some (formatPropertyValue val),
        newValue = (case map_of (newEntries r) key of
                      None \<Rightarrow> None
                    | Some nv \<Rightarrow> if isValidPropertyValue nv
                                 then Some (formatPropertyValue nv) else None) \<rparr>
      \<in> set (getFormatChanges r)"
    using valid_old_entry_kept[of _ _ r] by blast
next
  show "\<forall>key val nv. (key, val) \<in> set (oldEntries r) \<and> isValidPropertyValue val \<and>
        map_of (newEntries r) key = Some nv \<and> \<not> isValidPropertyValue nv \<longrightarrow>
      \<lparr> property = formatPropertyName key, oldValue = Some (formatPropertyValue val),
        newValue = None \<rparr> \<in> set (getFormatChanges r)"
  proof (intro allI impI)
    fix key val nv
    assume a: "(key, val) \<in> set (oldEntries r) \<and> isValidPropertyValue val \<and>
        map_of (newEntries r) key = Some nv \<and> \<not> isValidPropertyValue nv"
    then have "(key, val) \<in> set (oldEntries r)" "isValidPropertyValue val" by simp_all
    from valid_old_entry_kept[OF this] a
    show "\<lparr> property = formatPropertyName key, oldValue = Some (formatPropertyValue val),
        newValue = None \<rparr> \<in> set (getFormatChanges r)"
      by simp
  qed
next
  show "\<forall>key val. (key, val) \<in> set (newEntries r) \<and> isValidPropertyValue val \<and>
        (\<forall>w. (key, w) \<in> set (oldEntries r) \<longrightarrow> \<not> isValidPropertyValue w) \<longrightarrow>
      \<lparr> property = formatPropertyName key, oldValue = None,
        newValue = Some (formatPropertyValue val) \<rparr> \<in> set (getFormatChanges r)"
    using valid_new_entry_added[of _ _ r] by blast
next
  show "(\<forall>w. (k, w) \<in> set (oldEntries r) \<union> set (newEntries r) \<longrightarrow> \<not> isValidPropertyValue w)
      \<longleftrightarrow> getFormatChanges (dropKey k r) = getFormatChanges r"
    by (rule dropKey_unchanged_iff)
qed

theorem rejected_values_never_shown_witness:
  "str_includes ''<w:b/>'' ''<'' \<and> \<not> isValidPropertyValue ''<w:b/>'' \<and>
   \<lparr> property = ''Bold'', oldValue = Some ''Yes'', newValue = None \<rparr>
     \<in> set (getFormatChanges
         (formatRevision (Some [(''rPr'', ''<w:b/>''), (''bold'', ''true''), (''size'', ''<sz/>'')])
            (Some [(''rPr'', ''xmlns:w''), (''bold'', ''<w:b/>''), (''size'', ''12'')]))) \<and>
   \<lparr> property = ''Size'', oldValue = None, newValue = Some ''12'' \<rparr>
     \<in> set (getFormatChanges
         (formatRevision (Some [(''rPr'', ''<w:b/>''), (''bold'', ''true''), (''size'', ''<sz/>'')])
            (Some [(''rPr'', ''xmlns:w''), (''bold'', ''<w:b/>''), (''size'', ''12'')]))) \<and>
   getFormatChanges
     (dropKey ''rPr''
        (formatRevision (Some [(''rPr'', ''<w:b/>''), (''bold'', ''true''), (''size'', ''<sz/>'')])
           (Some [(''rPr'', ''xmlns:w''), (''bold'', ''<w:b/>''), (''size'', ''12'')])))
     = getFormatChanges
         (formatRevision (Some [(''rPr'', ''<w:b/>''), (''bold'', ''true''), (''size'', ''<sz/>'')])
            (Some [(''rPr'', ''xmlns:w''), (''bold'', ''<w:b/>''), (''size'', ''12'')])) \<and>
   getFormatChanges
     (dropKey ''bold''
        (formatRevision (Some [(''rPr'', ''<w:b/>''), (''bold'', ''true''), (''size'', ''<sz/>'')])
           (Some [(''rPr'', ''xmlns:w''), (''bold'', ''<w:b/>''), (''size'', ''12'')])))
     \<noteq> getFormatChanges
         (formatRevision (Some [(''rPr'', ''<w:b/>''), (''bold'', ''true''), (''size'', ''<sz/>'')])
            (Some [(''rPr'', ''xmlns:w''), (''bold'', ''<w:b/>''), (''size'', ''12'')]))"
proof -
  let ?r = "formatRevision (Some [(''rPr'', ''<w:b/>''), (''bold'', ''true''), (''size'', ''<sz/>'')])
              (Some [(''rPr'', ''xmlns:w''), (''bold'', ''<w:b/>''), (''size'', ''12'')])"
  have old: "oldEntries ?r = [(''rPr'', ''<w:b/>''), (''bold'', ''true''), (''size'', ''<sz/>'')]"
    by (simp add: oldEntries_def formatRevision_def)
  have new: "newEntries ?r = [(''rPr'', ''xmlns:w''), (''bold'', ''<w:b/>''), (''size'', ''12'')]"
    by (simp add: newEntries_def formatRevision_def)
  have inc: "str_includes ''<w:b/>'' ''<''" by simp
  have h_old: "(''bold'', ''true'') \<in> set (oldEntries ?r) \<and> isValidPropertyValue ''true'' \<and>
      map_of (newEntries ?r) ''bold'' = Some ''<w:b/>'' \<and> \<not> isValidPropertyValue ''<w:b/>''"
    by (simp add: old new isValidPropertyValue_def)
  have h_new: "(''size'', ''12'') \<in> set (newEntries ?r) \<and> isValidPropertyValue ''12'' \<and>
      (\<forall>w. (''size'', w) \<in> set (oldEntries ?r) \<longrightarrow> \<not> isValidPropertyValue w)"
    by (simp add: old new isValidPropertyValue_def)
  have h_drop: "\<forall>w. (''rPr'', w) \<in> set (oldEntries ?r) \<union> set (newEntries ?r)
               \<longrightarrow> \<not> isValidPropertyValue w"
    by (auto simp: old new isValidPropertyValue_def)
  have h_keep: "\<not> (\<forall>w. (''bold'', w) \<in> set (oldEntries ?r) \<union> set (newEntries ?r)
               \<longrightarrow> \<not> isValidPropertyValue w)"
    by (auto simp: old new isValidPropertyValue_def)
  note t = rejected_values_never_shown[of "''<w:b/>''" ?r]
  have names: "formatPropertyName ''bold'' = ''Bold''" "formatPropertyName ''size'' = ''Size''"
    "formatPropertyValue ''true'' = ''Yes''" "formatPropertyValue ''12'' = ''12''"
    by (simp_all add: formatPropertyName_def formatPropertyValue_def trim_def isUpperAZ_def
        isWhiteSpace_def isLineTerminator_def charToUpperCase_def)
  from t[of "''rPr''"] inc have c1: "\<not> isValidPropertyValue ''<w:b/>''" by blast
  from t[of "''rPr''"] h_old
  have "\<lparr> property = formatPropertyName ''bold'', oldValue = Some (formatPropertyValue ''true''),
          newValue = None \<rparr> \<in> set (getFormatChanges ?r)"
    by blast
  then have c2: "\<lparr> property = ''Bold'', oldValue = Some ''Yes'', newValue = None \<rparr>
      \<in> set (getFormatChanges ?r)"
    by (simp only: names)
  from t[of "''rPr''"] h_new
  have "\<lparr> property = formatPropertyName ''size'', oldValue = None,
          newValue = Some (formatPropertyValue ''12'') \<rparr> \<in> set (getFormatChanges ?r)"
    by blast
  then have c3: "\<lparr> property = ''Size'', oldValue = None, newValue = Some ''12'' \<rparr>
      \<in> set (getFormatChanges ?r)"
    by (simp only: names)
  from t[of "''rPr''"] h_drop
  have c4: "getFormatChanges (dropKey ''rPr'' ?r) = getFormatChanges ?r" by blast
  from t[of "''bold''"] h_keep
  have c5: "getFormatChanges (dropKey ''bold'' ?r) \<noteq> getFormatChanges ?r" by blast
  from inc c1 c2 c3 c4 c5 show ?thesis by blast
qed

text \<open>
  C4, as stated, fails: a key of \<open>oldProperties\<close> whose value is not valid gets no entry
  in the first pass, and it is not counted as seen, so its key gets an add-only entry
  from \<open>newProperties\<close> although it occurs in \<open>oldProperties\<close>.
\<close>

theorem old_key_without_entry_counterexample:
  "getFormatChanges (formatRevision (Some [(''rPr'', ''<w:rPr/>'')]) None) = [] \<and>
   getFormatChanges
     (formatRevision (Some [(''rPr'', ''<w:rPr/>''), (''italic'', ''true'')])
        (Some [(''rPr'', ''single'')]))
     = [\<lparr> property = ''Italic'', oldValue = Some ''Yes'', newValue = None \<rparr>,
        \<lparr> property = ''R Pr'', oldValue = None, newValue = Some ''Single'' \<rparr>]"
  by (simp add: rev_eval_defs)

text \<open>
  C4, amended. The result is, in this order: one entry per entry of \<open>oldProperties\<close>
  whose value is valid, in the map's iteration order, each paired with the value under
  the same key in \<open>newProperties\<close> when that is present and valid; then one add-only
  entry per entry of \<open>newProperties\<close> whose value is valid and whose key got no entry in
  the first pass. When every value of both maps is valid, this is one entry per key of
  \<open>oldProperties\<close> followed by one add-only entry per key of \<open>newProperties\<close> that does not
  occur in \<open>oldProperties\<close>.
\<close>

theorem getFormatChanges_order:
  "getFormatChanges r =
     map (pairedEntry (newEntries r)) (filter passes (oldEntries r)) @
     map addOnlyEntry
       (filter (\<lambda>kv. fst kv \<notin> fst ` set (filter passes (oldEntries r)) \<and> passes kv)
          (newEntries r)) \<and>
   ((\<forall>kv \<in> set (oldEntries r) \<union> set (newEntries r). passes kv) \<longrightarrow>
      getFormatChanges r =
        map (pairedEntry (newEntries r)) (oldEntries r) @
        map addOnlyEntry (filter (\<lambda>kv. fst kv \<notin> fst ` set (oldEntries r)) (newEntries r)))"
proof (intro conjI impI)
  show "getFormatChanges r =
     map (pairedEntry (newEntries r)) (filter passes (oldEntries r)) @
     map addOnlyEntry
       (filter (\<lambda>kv. fst kv \<notin> fst ` set (filter passes (oldEntries r)) \<and> passes kv)
          (newEntries r))"
    by (rule getFormatChanges_eq)
next
  assume all: "\<forall>kv \<in> set (oldEntries r) \<union> set (newEntries r). passes kv"
  then have old: "filter passes (oldEntries r) = oldEntries r"
    by (simp add: filter_id_conv)
  from all have new: "filter (\<lambda>kv. fst kv \<notin> S \<and> passes kv) (newEntries r)
                    = filter (\<lambda>kv. fst kv \<notin> S) (newEntries r)" for S
    by (auto intro!: filter_cong)
  show "getFormatChanges r =
        map (pairedEntry (newEntries r)) (oldEntries r) @
        map addOnlyEntry (filter (\<lambda>kv. fst kv \<notin> fst ` set (oldEntries r)) (newEntries r))"
    by (simp only: getFormatChanges_eq[of r] old new)
qed

theorem getFormatChanges_order_witness:
  "getFormatChanges
     (formatRevision (Some [(''bold'', ''true''), (''underline'', ''single'')])
        (Some [(''fontSize'', ''12''), (''bold'', ''false'')]))
   = [\<lparr> property = ''Bold'', oldValue = Some ''Yes'', newValue = Some ''No'' \<rparr>,
      \<lparr> property = ''Underline'', oldValue = Some ''Single'', newValue = None \<rparr>,
      \<lparr> property = ''Font Size'', oldValue = None, newValue = Some ''12'' \<rparr>]"
proof -
  let ?r = "formatRevision (Some [(''bold'', ''true''), (''underline'', ''single'')])
              (Some [(''fontSize'', ''12''), (''bold'', ''false'')])"
  have old: "oldEntries ?r = [(''bold'', ''true''), (''underline'', ''single'')]"
    by (simp add: oldEntries_def formatRevision_def)
  have new: "newEntries ?r = [(''fontSize'', ''12''), (''bold'', ''false'')]"
    by (simp add: newEntries_def formatRevision_def)
  have hyp: "\<forall>kv \<in> set (oldEntries ?r) \<union> set (newEntries ?r). passes kv"
    by (simp add: old new passes_def isValidPropertyValue_def)
  from getFormatChanges_order[of ?r] hyp
  have "getFormatChanges ?r =
        map (pairedEntry (newEntries ?r)) (oldEntries ?r) @
        map addOnlyEntry (filter (\<lambda>kv. fst kv \<notin> fst ` set (oldEntries ?r)) (newEntries ?r))"
    by blast
  then show ?thesis
    by (simp add: old new pairedEntry_def addOnlyEntry_def isValidPropertyValue_def
        formatPropertyName_def formatPropertyValue_def trim_def isUpperAZ_def isWhiteSpace_def
        isLineTerminator_def charToUpperCase_def)
qed

section \<open>Properties of the conversion orchestrator\<close>

lemmas handler_defs =
  handleFileChange_def reconvert_def handleCommentModeChange_def handlePaginationToggle_def
  handleClear_def handleFabricateClassesChange_def

lemma loadedState_eq:
  "loadedState = initialState \<lparr> fileName := ''contract.docx'', pendingFile := Some exampleFile \<rparr>"
  by (simp add: loadedState_def handleFileChange_def exampleFile_def)

lemma handle_stores_setting: "isSettingsChange ev \<Longrightarrow> fst (handle ev s) = mergeSettings ev s"
  by (cases ev) (simp_all add: handler_defs)

lemma handle_converts_on_change:
  "convertsOnChange ev \<Longrightarrow>
   snd (handle ev s) =
     (case pendingFile s of
        None \<Rightarrow> []
      | Some f \<Rightarrow> [Convert f (getConvertOptions (mergeSettings ev s))])"
  by (cases ev) (simp_all add: handler_defs getConvertOptions_def split: option.splits)

lemma handle_stores_only:
  "isSettingsChange ev \<Longrightarrow> \<not> convertsOnChange ev \<Longrightarrow> snd (handle ev s) = []"
  by (cases ev) simp_all

lemma handle_commit:
  "isCommit ev \<Longrightarrow>
   handle ev s =
     (s, case pendingFile s of None \<Rightarrow> [] | Some f \<Rightarrow> [Convert f (getConvertOptions s)])"
  by (cases ev) (simp_all add: reconvert_def split: option.splits)

text \<open>
  C1, as stated, fails: with a file loaded, a change of \<open>showPageNumbers\<close> or of the page
  title stores the value and makes no call on the engine.
\<close>

theorem settings_change_without_conversion_counterexample:
  "pendingFile loadedState = Some exampleFile \<and>
   isSettingsChange (ShowPageNumbersChange False) \<and>
   handle (ShowPageNumbersChange False) loadedState
     = (loadedState \<lparr> showPageNumbers := False \<rparr>, []) \<and>
   handle (PageTitleChange ''Contract'') loadedState
     = (loadedState \<lparr> pageTitle := ''Contract'' \<rparr>, [])"
  by (simp add: loadedState_eq)

text \<open>
  C1, amended. Every settings change stores the merged settings. A change of the comment
  mode, of the pagination mode or of \<open>fabricateClasses\<close> calls the engine once with the
  options of the merged settings when a file is loaded, and not at all otherwise. A
  change of the page scale, of \<open>showPageNumbers\<close>, of the page title, of a CSS prefix or
  of the additional CSS makes no engine call, whether a file is loaded or not; the stored
  value reaches the engine with the commit event of the input (release of the slider,
  blur of a text field), which calls the engine once with the options of the stored
  settings when a file is loaded, and not at all otherwise.
\<close>

theorem settings_change_reconversion:
  "(isSettingsChange ev \<longrightarrow> fst (handle ev s) = mergeSettings ev s) \<and>
   (convertsOnChange ev \<longrightarrow>
      snd (handle ev s) =
        (case pendingFile s of
           None \<Rightarrow> []
         | Some f \<Rightarrow> [Convert f (getConvertOptions (mergeSettings ev s))])) \<and>
   (isSettingsChange ev \<and> \<not> convertsOnChange ev \<longrightarrow> snd (handle ev s) = []) \<and>
   (isCommit ev \<longrightarrow>
      handle ev s =
        (s, case pendingFile s of None \<Rightarrow> [] | Some f \<Rightarrow> [Convert f (getConvertOptions s)]))"
  using handle_stores_setting[of ev s] handle_converts_on_change[of ev s]
    handle_stores_only[of ev s] handle_commit[of ev s]
  by blast

theorem settings_change_reconversion_witness:
  "handle (CommentModeChange Mode_margin) loadedState
     = (loadedState \<lparr> commentMode := Mode_margin \<rparr>,
        [Convert exampleFile
           \<lparr> opt_commentRenderMode = Margin, opt_pageTitle = ''Document'',
             opt_cssPrefix = ''docx-'', opt_fabricateClasses = True, opt_additionalCss = None,
             opt_commentCssClassPrefix = ''comment-'', opt_paginationMode = PaginationMode_None,
             opt_paginationScale = None \<rparr>]) \<and>
   handle (CommentModeChange Mode_margin) initialState
     = (initialState \<lparr> commentMode := Mode_margin \<rparr>, []) \<and>
   handle (PaginationScaleChange (12 / 10)) loadedState
     = (loadedState \<lparr> paginationScale := 12 / 10 \<rparr>, []) \<and>
   handle TextFieldBlur (loadedState \<lparr> pageTitle := ''Contract'' \<rparr>)
     = (loadedState \<lparr> pageTitle := ''Contract'' \<rparr>,
        [Convert exampleFile
           \<lparr> opt_commentRenderMode = Disabled, opt_pageTitle = ''Contract'',
             opt_cssPrefix = ''docx-'', opt_fabricateClasses = True, opt_additionalCss = None,
             opt_commentCssClassPrefix = ''comment-'', opt_paginationMode = PaginationMode_None,
             opt_paginationScale = None \<rparr>])"
proof -
  have a: "isSettingsChange (CommentModeChange Mode_margin)"
    "convertsOnChange (CommentModeChange Mode_margin)"
    "isSettingsChange (PaginationScaleChange (12 / 10))"
    "\<not> convertsOnChange (PaginationScaleChange (12 / 10))"
    "isCommit TextFieldBlur"
    by simp_all
  note t1 = settings_change_reconversion[of "CommentModeChange Mode_margin" loadedState]
  note t2 = settings_change_reconversion[of "CommentModeChange Mode_margin" initialState]
  note t3 = settings_change_reconversion[of "PaginationScaleChange (12 / 10)" loadedState]
  note t4 = settings_change_reconversion[of TextFieldBlur "loadedState \<lparr> pageTitle := ''Contract'' \<rparr>"]
  have p: "pendingFile loadedState = Some exampleFile" "pendingFile initialState = None"
    by (simp_all add: loadedState_eq initialState_def)
  have "fst (handle (CommentModeChange Mode_margin) loadedState) = loadedState \<lparr> commentMode := Mode_margin \<rparr>"
    and "snd (handle (CommentModeChange Mode_margin) loadedState)
          = [Convert exampleFile (getConvertOptions (loadedState \<lparr> commentMode := Mode_margin \<rparr>))]"
    and "fst (handle (CommentModeChange Mode_margin) initialState) = initialState \<lparr> commentMode := Mode_margin \<rparr>"
    and "snd (handle (CommentModeChange Mode_margin) initialState) = []"
    and "fst (handle (PaginationScaleChange (12 / 10)) loadedState) = loadedState \<lparr> paginationScale := 12 / 10 \<rparr>"
    and "snd (handle (PaginationScaleChange (12 / 10)) loadedState) = []"
    and "handle TextFieldBlur (loadedState \<lparr> pageTitle := ''Contract'' \<rparr>)
          = (loadedState \<lparr> pageTitle := ''Contract'' \<rparr>,
             [Convert exampleFile (getConvertOptions (loadedState \<lparr> pageTitle := ''Contract'' \<rparr>))])"
    using t1 t2 t3 t4 a p by simp_all
  then show ?thesis
    by (simp add: prod_eq_iff getConvertOptions_def loadedState_eq initialState_def)
qed

section \<open>Properties of the annotation mutator\<close>

subsection \<open>Decimal numerals\<close>

lemma show_nat_digit [simp]: "n < 10 \<Longrightarrow> show_nat n = [digit_char n]"
  by (simp add: show_nat.simps)

lemma show_nat_step [simp]:
  "10 \<le> n \<Longrightarrow> show_nat n = show_nat (n div 10) @ [digit_char (n mod 10)]"
  by (subst show_nat.simps) simp




subsection \<open>Validation\<close>

text \<open>
  C6. When the label or the search text of the form is empty (or absent),
  \<open>handleAddAnnotation\<close> sets the validation error and returns at once: no request is
  passed to \<open>add\<close>, and the hook state, which holds the annotation list and the document
  bytes, is the one it was given.
\<close>

theorem add_validation_error:
  "falsy (na_label (newAnnotation ui)) \<or> falsy (na_searchText (newAnnotation ui)) \<Longrightarrow>
   handleAddAnnotation add now ui h
     = (ui \<lparr> addError := Some ''Label and search text are required'' \<rparr>, h, [])"
  by (simp add: handleAddAnnotation_def)

theorem add_validation_error_witness:
  "falsy (na_searchText (newAnnotation (labelChange ''Key Term'' initialForm))) \<and>
   handleAddAnnotation (\<lambda>h req. (Resolved None, req_id req # h)) 1700000000000
     (labelChange ''Key Term'' initialForm) [''a1'']
     = ((labelChange ''Key Term'' initialForm)
          \<lparr> addError := Some ''Label and search text are required'' \<rparr>, [''a1''], [])"
proof -
  have hyp: "falsy (na_searchText (newAnnotation (labelChange ''Key Term'' initialForm)))"
    by (simp add: falsy_def labelChange_def initialForm_def blankAnnotation_def)
  then have "falsy (na_label (newAnnotation (labelChange ''Key Term'' initialForm))) \<or>
    falsy (na_searchText (newAnnotation (labelChange ''Key Term'' initialForm)))" ..
  from add_validation_error[OF this] hyp show ?thesis by simp
qed

subsection \<open>Removal\<close>

text \<open>
  C7. \<open>handleRemoveAnnotation\<close> never rejects: whatever \<open>remove\<close> does for the id, the
  handler settles normally. The hook state afterwards is the one \<open>remove\<close> reports (the
  handler changes nothing of its own), and a rejection of \<open>remove\<close> only adds a line to
  the console.
\<close>

theorem remove_never_throws:
  "fst (handleRemoveAnnotation remove annotationId h console) = Resolved () \<and>
   fst (snd (handleRemoveAnnotation remove annotationId h console)) = snd (remove h annotationId) \<and>
   snd (snd (handleRemoveAnnotation remove annotationId h console)) =
     (case fst (remove h annotationId) of
        Resolved u \<Rightarrow> console
      | Rejected err \<Rightarrow> console @ [(''Failed to remove annotation:'', err)])"
  by (simp add: handleRemoveAnnotation_def split: Outcome.splits)

subsection \<open>Download\<close>

lemma handleDownload_absent: "handleDownload ui None = []"
  by (simp add: handleDownload_def)

lemma handleDownload_plain_name:
  "handleDownload (handleFileChangeAV (Some exampleFile) initialForm) (Some bytes)
     = [\<lparr> blob_bytes = bytes,
          blob_type = ''application/vnd.openxmlformats-officedocument.wordprocessingml.document'',
          download = ''contract-annotated.docx'' \<rparr>]"
  by (simp add: handleDownload_def handleFileChangeAV_def exampleFile_def initialForm_def)

text \<open>
  C8. With document bytes present, the download of a file named \<open>REPORT.DOCX\<close> is named
  \<open>REPORT.DOCX\<close>, without the suffix, and the download of \<open>v1.docx.docx\<close> is named
  \<open>v1-annotated.docx.docx\<close>, the suffix not in front of the extension: the name is made
  by replacing the first occurrence of \<open>.docx\<close>.
\<close>

theorem download_name_without_suffix:
  "handleDownload
     (handleFileChangeAV (Some \<lparr> file_name = ''REPORT.DOCX'', file_bytes = [80, 75, 3, 4] \<rparr>) initialForm)
     (Some [80, 75, 3, 4, 20])
     = [\<lparr> blob_bytes = [80, 75, 3, 4, 20],
          blob_type = ''application/vnd.openxmlformats-officedocument.wordprocessingml.document'',
          download = ''REPORT.DOCX'' \<rparr>] \<and>
   handleDownload
     (handleFileChangeAV (Some \<lparr> file_name = ''v1.docx.docx'', file_bytes = [80, 75, 3, 4] \<rparr>) initialForm)
     (Some [80, 75, 3, 4, 20])
     = [\<lparr> blob_bytes = [80, 75, 3, 4, 20],
          blob_type = ''application/vnd.openxmlformats-officedocument.wordprocessingml.document'',
          download = ''v1-annotated.docx.docx'' \<rparr>]"
  by (simp add: handleDownload_def handleFileChangeAV_def initialForm_def)

subsection \<open>The request passed to the engine\<close>

lemmas form_defs =
  initialForm_def blankAnnotation_def labelChange_def searchTextChange_def colorChange_def
  occurrenceChange_def

lemmas js_defs =
  falsy_def orElse_def orOne_def toLowerCase_def charToLowerCase_def isWhiteSpace_def

lemma replaceWhitespaceRuns_nonempty: "s \<noteq> [] \<Longrightarrow> replaceWhitespaceRuns s \<noteq> []"
  by (cases s) simp_all


lemma buildRequest_labelId_nonempty:
  "\<not> falsy (na_label na) \<Longrightarrow> req_labelId (buildRequest now na) \<noteq> []"
  by (auto simp: buildRequest_def falsy_def orElse_def toLowerCase_def
      replaceWhitespaceRuns_nonempty split: option.splits)

lemma buildRequest_occurrence_nonzero: "req_occurrence (buildRequest now na) \<noteq> 0"
  by (simp add: buildRequest_def orOne_def split: option.splits)

lemma handleAddAnnotation_dispatch:
  "\<not> falsy (na_label (newAnnotation ui)) \<Longrightarrow> \<not> falsy (na_searchText (newAnnotation ui)) \<Longrightarrow>
   handleAddAnnotation add now ui h
     = (afterAdd (ui \<lparr> isAdding := True, addError := None \<rparr>)
          (fst (add h (buildRequest now (newAnnotation ui)))),
        snd (add h (buildRequest now (newAnnotation ui))),
        [buildRequest now (newAnnotation ui)])"
  by (simp add: handleAddAnnotation_def)



text \<open>
  C10. After the user has typed the label \<open>Key Term\<close>, the search text \<open>liability\<close> and
  the occurrence \<open>-5\<close>, the request that \<open>handleAddAnnotation\<close> passes to \<open>add\<close> has the
  occurrence \<open>-5\<close>: the default \<^verbatim>\<open>|| 1\<close> replaces an absent, zero or unparseable entry
  and lets a negative one through.
\<close>

theorem negative_occurrence_dispatched:
  "parseInt ''-5'' = Some (- 5) \<and>
   snd (snd (handleAddAnnotation add now typedForm h))
     = [\<lparr> req_id = ''annot-'' @ show_nat now, req_labelId = ''key_term'', req_label = ''Key Term'',
         req_color = Some ''#FFEB3B'', req_searchText = Some ''liability'',
         req_occurrence = - 5 \<rparr>]"
proof -
  have p: "parseInt ''-5'' = Some (- 5)"
    by (simp add: parseInt_def parseMagnitude_def digitValue_def digitsValue_def
        isWhiteSpace_def charToLowerCase_def)
  have valid: "\<not> falsy (na_label (newAnnotation typedForm))"
    "\<not> falsy (na_searchText (newAnnotation typedForm))"
    by (simp_all add: typedForm_def form_defs falsy_def)
  have "buildRequest now (newAnnotation typedForm)
     = \<lparr> req_id = ''annot-'' @ show_nat now, req_labelId = ''key_term'', req_label = ''Key Term'',
         req_color = Some ''#FFEB3B'', req_searchText = Some ''liability'',
         req_occurrence = - 5 \<rparr>"
    by (simp add: buildRequest_def typedForm_def form_defs js_defs p)
  with p show ?thesis
    by (simp add: handleAddAnnotation_dispatch[OF valid])
qed

end
